theory Spec2Isabelle
  imports Main "HOL-Library.Word"
begin

section \<open>The Go TLS probe configuration: locating the return sites of a function\<close>

text \<open>
  The development embeds \<^verbatim>\<open>user/config/config_gotls.go\<close>: the methods \<^verbatim>\<open>Check\<close>,
  \<^verbatim>\<open>findRetOffsets\<close>, \<^verbatim>\<open>decodeInstruction\<close> and \<^verbatim>\<open>checkModel\<close> of \<^verbatim>\<open>GoTLSConfig\<close>.

  What the Go code does beyond computing a value is written out:
  \<^item> a Go function returning \<^verbatim>\<open>(v, error)\<close> returns the pair of \<open>v\<close> and an
    \<open>error option\<close> (\<open>None\<close> is Go's \<^verbatim>\<open>nil\<close> error); a \<^verbatim>\<open>nil\<close> slice and an empty
    slice are both \<open>[]\<close> (the code only ever takes their \<^verbatim>\<open>len\<close>);
  \<^item> a run-time panic and a loop that never ends are outcomes of their own;
  \<^item> the calls into libraries (the two instruction decoders, \<^verbatim>\<open>os.Stat\<close>,
    \<^verbatim>\<open>elf.Open\<close>, \<^verbatim>\<open>Machine.String\<close>) and \<^verbatim>\<open>runtime.GOARCH\<close> are parameters,
    collected in the record \<open>platform\<close>;
  \<^item> what the code writes to standard output and asks of the file system is kept as a
    list of events, in the order of the calls.
\<close>

subsection \<open>Errors, panics and outcomes\<close>

datatype error =
    ErrorGoBINNotFound
    \<comment> \<open>\<^verbatim>\<open>errors.New("The executable program (compiled by Golang) was not found")\<close>\<close>
  | ErrorSymbolNotFound
    \<comment> \<open>\<^verbatim>\<open>errors.New("symbol not found")\<close>\<close>
  | ErrorNoRetFound
    \<comment> \<open>\<^verbatim>\<open>errors.New("no RET instructions found")\<close>\<close>
  | NoSymbolsFound
    \<comment> \<open>\<^verbatim>\<open>fmt.Errorf("no symbols found")\<close>\<close>
  | PcapIfnameNotSet
    \<comment> \<open>\<^verbatim>\<open>errors.New("'pcap' model used, please used -i flag to set ifname value.")\<close>\<close>
  | GoApplicationNotMatch string string
    \<comment> \<open>\<^verbatim>\<open>fmt.Errorf("Go Application not match, want:%s, have:%s", want, have)\<close>\<close>
  | UnsupportCPUArch string
    \<comment> \<open>\<^verbatim>\<open>fmt.Errorf("unsupport CPU arch :%s", arch)\<close>\<close>
  | LibError string
    \<comment> \<open>an error value made by a library call, named by its message\<close>

datatype panic = NilDereference | IndexOutOfRange | SliceBoundsOutOfRange

datatype 'a outcome = Returns 'a | Panics panic | Diverges

subsection \<open>Data\<close>

type_synonym byte = "8 word"

text \<open>
  A Go byte slice as a slice expression sees it: the \<open>elems\<close> are its \<^verbatim>\<open>len\<close> elements,
  the \<open>spare\<close> bytes are those of the backing array between \<^verbatim>\<open>len\<close> and \<^verbatim>\<open>cap\<close>.
\<close>

record byte_slice =
  elems :: "byte list"
  spare :: "byte list"

definition cap :: "byte_slice \<Rightarrow> nat" where
  "cap s = length (elems s) + length (spare s)"

text \<open>
  The slice expression \<^verbatim>\<open>s[lo:hi]\<close> with indices of type \<^verbatim>\<open>uint64\<close>: Go panics unless
  \<^verbatim>\<open>lo <= hi <= cap(s)\<close>; \<open>None\<close> is that panic. The result is given by its elements.
\<close>

definition slice_expr :: "byte_slice \<Rightarrow> 64 word \<Rightarrow> 64 word \<Rightarrow> byte list option" where
  "slice_expr s lo hi =
     (if unat lo \<le> unat hi \<and> unat hi \<le> cap s
      then Some (take (unat hi - unat lo) (drop (unat lo) (elems s @ spare s)))
      else None)"

text \<open>\<^verbatim>\<open>elf.Symbol\<close>; \<^verbatim>\<open>Section\<close> is an \<^verbatim>\<open>elf.SectionIndex\<close>, a Go \<^verbatim>\<open>int\<close>.\<close>

record Symbol =
  Name :: string
  Value :: "64 word"
  Size :: "64 word"
  Section :: int

text \<open>\<^verbatim>\<open>elf.Section\<close>: its address and what its method \<^verbatim>\<open>Data()\<close> returns.\<close>

record Section_hdr =
  Addr :: "64 word"
  Data :: "error + byte_slice"

text \<open>
  \<^verbatim>\<open>elf.File\<close>: the machine field of the header, the section table, and what the methods
  \<^verbatim>\<open>Symbols()\<close> and \<^verbatim>\<open>DynamicSymbols()\<close> return (the code drops their error and
  uses their slice, so both values are kept).
\<close>

record elf_File =
  Machine :: "16 word"
  Sections :: "Section_hdr list"
  Symbols :: "Symbol list \<times> error option"
  DynamicSymbols :: "Symbol list \<times> error option"

definition EM_X86_64 :: "16 word" where "EM_X86_64 = 62"
definition EM_AARCH64 :: "16 word" where "EM_AARCH64 = 183"

text \<open>
  A decoded instruction, as far as the code reads it: the operation of either decoder is
  compared with \<^verbatim>\<open>RET\<close> only, and the length is read for x86 only.
\<close>

datatype x86_Op = RET | NOP | x86_other nat
datatype arm64_Op = arm64_RET | arm64_other nat

record x86_Inst =
  Op :: x86_Op
  Len :: nat

record arm64_Inst =
  arm64_Op :: arm64_Op

record platform =
  x86asm_Decode :: "byte list \<Rightarrow> nat \<Rightarrow> error + x86_Inst"
  arm64asm_Decode :: "byte list \<Rightarrow> error + arm64_Inst"
  os_Stat :: "string \<Rightarrow> error option"
  elf_Open :: "string \<Rightarrow> error + elf_File"
  Machine_String :: "16 word \<Rightarrow> string"
  GOARCH :: string

text \<open>
  \<^verbatim>\<open>GoTLSConfig\<close>. The embedded \<^verbatim>\<open>eConfig\<close> is read by none of the four methods and
  is left out; \<open>goElf\<close> is a pointer, \<open>None\<close> when \<^verbatim>\<open>nil\<close>.
\<close>

record GoTLSConfig =
  Path :: string
  PcapFile :: string
  KeylogFile :: string
  Model :: string
  Ifname :: string
  PcapFilter :: string
  goElfArch :: string
  goElf :: "elf_File option"
  ReadTlsAddrs :: "nat list"

datatype event = Println string | Stat string | Open string

subsection \<open>Constants\<close>

definition Arm64armInstSize :: nat where "Arm64armInstSize = 4"

definition GoTlsReadFunc :: string where
  "GoTlsReadFunc = ''crypto/tls.(*Conn).Read''"

text \<open>
  Modelled from the spec: the five capture-model identifiers are declared in a file of the
  package that is not at hand. The specification names the closed set of modes (text,
  pcap-like, key-log-like) and the comment of the field \<^verbatim>\<open>Model\<close> spells them:
  \<^verbatim>\<open>text, pcapng/pcap, key/keylog\<close>.
\<close>

definition TlsCaptureModelText :: string where "TlsCaptureModelText = ''text''"
definition TlsCaptureModelPcap :: string where "TlsCaptureModelPcap = ''pcap''"
definition TlsCaptureModelPcapng :: string where "TlsCaptureModelPcapng = ''pcapng''"
definition TlsCaptureModelKey :: string where "TlsCaptureModelKey = ''key''"
definition TlsCaptureModelKeylog :: string where "TlsCaptureModelKeylog = ''keylog''"

subsection \<open>\<^verbatim>\<open>checkModel\<close>\<close>

text \<open>The \<^verbatim>\<open>switch\<close> on \<^verbatim>\<open>gc.Model\<close>; the pcap case prints the interface name.\<close>

definition checkModel :: "GoTLSConfig \<Rightarrow> (string \<times> error option) \<times> event list" where
  "checkModel gc =
     (if Model gc = TlsCaptureModelKeylog \<or> Model gc = TlsCaptureModelKey
      then ((TlsCaptureModelKey, None), [])
      else if Model gc = TlsCaptureModelPcap \<or> Model gc = TlsCaptureModelPcapng
      then (if Ifname gc = []
            then (([], Some PcapIfnameNotSet), [])
            else ((TlsCaptureModelPcap, None), [Println (Ifname gc)]))
      else ((TlsCaptureModelText, None), []))"

subsection \<open>\<^verbatim>\<open>decodeInstruction\<close>\<close>

text \<open>
  The \<^verbatim>\<open>for\<close> loop of \<^verbatim>\<open>decodeInstruction\<close>, from cursor \<open>i\<close> with the offsets
  gathered so far. The decoder is handed \<^verbatim>\<open>instHex[i:]\<close>, which cannot panic since
  \<open>i < len(instHex)\<close>. The cursor and the lengths are natural numbers: a slice has fewer
  than \<open>2^63\<close> elements, so the Go \<^verbatim>\<open>int\<close> cursor does not wrap while the loop
  runs. The loop need not end (a decoder reporting length 0 stalls it): \<open>None\<close> is that.
\<close>

partial_function (option) decode_loop ::
  "platform \<Rightarrow> GoTLSConfig \<Rightarrow> byte list \<Rightarrow> nat \<Rightarrow> nat list \<Rightarrow> (nat list \<times> error option) option"
where
  "decode_loop pf gc instHex i offsets =
     (if i < length instHex then
        (if goElfArch gc = ''amd64'' then
           (case x86asm_Decode pf (drop i instHex) 64 of
              Inl err \<Rightarrow> Some ([], Some err)
            | Inr inst \<Rightarrow>
                decode_loop pf gc instHex (i + Len inst)
                  (if Op inst = RET then offsets @ [i] else offsets))
         else
           (case arm64asm_Decode pf (drop i instHex) of
              Inl err \<Rightarrow> Some ([], Some err)
            | Inr inst \<Rightarrow>
                decode_loop pf gc instHex (i + Arm64armInstSize)
                  (if arm64_Op inst = arm64_RET then offsets @ [i] else offsets)))
      else Some (offsets, None))"

declare decode_loop.simps [code]

definition decodeInstruction ::
  "platform \<Rightarrow> GoTLSConfig \<Rightarrow> byte list \<Rightarrow> (nat list \<times> error option) option" where
  "decodeInstruction pf gc instHex = decode_loop pf gc instHex 0 []"

text \<open>
  One iteration of the same loop in which the decoder succeeds, as a step from the cursor
  and the offsets before it to those after it (lines 171 to 178 on amd64, 180 to 187
  otherwise). The runs of the loop are the chains of such steps.
\<close>

inductive scan_step ::
  "platform \<Rightarrow> GoTLSConfig \<Rightarrow> byte list \<Rightarrow> nat \<times> nat list \<Rightarrow> nat \<times> nat list \<Rightarrow> bool"
  for pf :: platform and gc :: GoTLSConfig and instHex :: "byte list"
where
  step_amd64:
    "i < length instHex \<Longrightarrow> goElfArch gc = ''amd64'' \<Longrightarrow>
     x86asm_Decode pf (drop i instHex) 64 = Inr inst \<Longrightarrow>
     scan_step pf gc instHex (i, offsets)
       (i + Len inst, if Op inst = RET then offsets @ [i] else offsets)"
| step_arm64:
    "i < length instHex \<Longrightarrow> goElfArch gc \<noteq> ''amd64'' \<Longrightarrow>
     arm64asm_Decode pf (drop i instHex) = Inr inst \<Longrightarrow>
     scan_step pf gc instHex (i, offsets)
       (i + Arm64armInstSize, if arm64_Op inst = arm64_RET then offsets @ [i] else offsets)"

code_pred scan_step .

text \<open>
  The iteration in which the decoder fails at cursor \<open>i\<close> with the error \<open>err\<close>, which
  the loop returns at once (lines 172 to 174 and 181 to 183).
\<close>

definition decode_fails :: "platform \<Rightarrow> GoTLSConfig \<Rightarrow> byte list \<Rightarrow> nat \<Rightarrow> error \<Rightarrow> bool" where
  "decode_fails pf gc instHex i err \<longleftrightarrow>
     i < length instHex \<and>
     (if goElfArch gc = ''amd64'' then x86asm_Decode pf (drop i instHex) 64 = Inl err
      else arm64asm_Decode pf (drop i instHex) = Inl err)"

subsection \<open>\<^verbatim>\<open>findRetOffsets\<close>\<close>

text \<open>
  The function is embedded in the three stages of its body, composed in
  \<open>findRetOffsets\<close> below.

  Lines 115 to 143: the two symbol tables are appended (static first), an empty
  search space is an error, and the \<^verbatim>\<open>range\<close> loop stops at the first symbol whose name
  is the one looked for.
\<close>

definition allSymbs :: "elf_File \<Rightarrow> Symbol list" where
  "allSymbs f =
     (let goSymbs = fst (Symbols f);
          all1 = (if length goSymbs > 0 then [] @ goSymbs else []);
          goDynamicSymbs = fst (DynamicSymbols f)
      in if length goDynamicSymbs > 0 then all1 @ goDynamicSymbs else all1)"

fun range_symbols :: "Symbol list \<Rightarrow> string \<Rightarrow> Symbol option" where
  "range_symbols [] symbolName = None"
| "range_symbols (s # ss) symbolName =
     (if Name s = symbolName then Some s else range_symbols ss symbolName)"

definition resolve_symbol :: "elf_File \<Rightarrow> string \<Rightarrow> error + Symbol" where
  "resolve_symbol f symbolName =
     (if length (allSymbs f) = 0 then Inl NoSymbolsFound
      else case range_symbols (allSymbs f) symbolName of
             None \<Rightarrow> Inl ErrorSymbolNotFound
           | Some symbol \<Rightarrow> Inr symbol)"

text \<open>
  Lines 145 to 158: the section of the symbol is indexed (Go panics when the index is out
  of range), its data are read, and the bytes of the function are sliced out with
  \<^verbatim>\<open>uint64\<close> arithmetic, which wraps.
\<close>

definition extract_bytes :: "elf_File \<Rightarrow> Symbol \<Rightarrow> (error + byte list) outcome" where
  "extract_bytes f symbol =
     (if Section symbol < 0 \<or> int (length (Sections f)) \<le> Section symbol
      then Panics IndexOutOfRange
      else
        (let section = Sections f ! nat (Section symbol) in
         case Data section of
           Inl err \<Rightarrow> Returns (Inl err)
         | Inr elfText \<Rightarrow>
             (let start = Value symbol - Addr section;
                  end = start + Size symbol
              in case slice_expr elfText start end of
                   None \<Rightarrow> Panics SliceBoundsOutOfRange
                 | Some instHex \<Rightarrow> Returns (Inr instHex))))"

text \<open>
  Lines 159 to 163: the error of \<^verbatim>\<open>decodeInstruction\<close> is assigned to the blank
  identifier, and only the length of the offsets decides the result.
\<close>

definition scan_bytes ::
  "platform \<Rightarrow> GoTLSConfig \<Rightarrow> byte list \<Rightarrow> (nat list \<times> error option) outcome" where
  "scan_bytes pf gc instHex =
     (case decodeInstruction pf gc instHex of
        None \<Rightarrow> Diverges
      | Some (offsets, _) \<Rightarrow>
          if length offsets = 0 then Returns (offsets, Some ErrorNoRetFound)
          else Returns (offsets, None))"

definition findRetOffsets ::
  "platform \<Rightarrow> GoTLSConfig \<Rightarrow> string \<Rightarrow> (nat list \<times> error option) outcome" where
  "findRetOffsets pf gc symbolName =
     (case goElf gc of
        None \<Rightarrow> Panics NilDereference
      | Some f \<Rightarrow>
          (case resolve_symbol f symbolName of
             Inl err \<Rightarrow> Returns ([], Some err)
           | Inr symbol \<Rightarrow>
               (case extract_bytes f symbol of
                  Panics p \<Rightarrow> Panics p
                | Diverges \<Rightarrow> Diverges
                | Returns (Inl err) \<Rightarrow> Returns ([], Some err)
                | Returns (Inr instHex) \<Rightarrow> scan_bytes pf gc instHex)))"

subsection \<open>\<^verbatim>\<open>Check\<close>\<close>

text \<open>
  The result is the returned error, the configuration as the method leaves it, and the
  events in the order they happened.
\<close>

definition classify_machine :: "platform \<Rightarrow> elf_File \<Rightarrow> string" where
  "classify_machine pf f =
     (if Machine_String pf (Machine f) = Machine_String pf EM_AARCH64 then ''arm64''
      else if Machine_String pf (Machine f) = Machine_String pf EM_X86_64 then ''amd64''
      else ''unsupport_arch'')"

definition Check ::
  "platform \<Rightarrow> GoTLSConfig \<Rightarrow> (error option \<times> GoTLSConfig \<times> event list) outcome" where
  "Check pf gc =
     (if Path gc = [] then Returns (Some ErrorGoBINNotFound, gc, [])
      else
        (case checkModel gc of
           ((_, Some err), evs) \<Rightarrow> Returns (Some err, gc, evs)
         | ((_, None), evs) \<Rightarrow>
             (case os_Stat pf (Path gc) of
                Some err \<Rightarrow> Returns (Some err, gc, evs @ [Stat (Path gc)])
              | None \<Rightarrow>
                  (case elf_Open pf (Path gc) of
                     Inl err \<Rightarrow> Returns (Some err, gc, evs @ [Stat (Path gc), Open (Path gc)])
                   | Inr f \<Rightarrow>
                       (let arch = classify_machine pf f;
                            evs' = evs @ [Stat (Path gc), Open (Path gc)]
                        in if arch \<noteq> GOARCH pf
                           then Returns (Some (GoApplicationNotMatch (GOARCH pf) arch), gc, evs')
                           else if arch \<noteq> ''amd64'' \<and> arch \<noteq> ''arm64''
                           then Returns (Some (UnsupportCPUArch arch), gc, evs')
                           else
                             (let gc' = gc\<lparr>goElfArch := arch, goElf := Some f\<rparr>
                              in case findRetOffsets pf gc' GoTlsReadFunc of
                                   Returns (offsets, err) \<Rightarrow>
                                     Returns (err, gc'\<lparr>ReadTlsAddrs := offsets\<rparr>, evs')
                                 | Panics p \<Rightarrow> Panics p
                                 | Diverges \<Rightarrow> Diverges))))))"


subsection \<open>Notions used in the statements\<close>

text \<open>
  The loop stalls at cursor \<open>i\<close> when the x86 decoder succeeds there with length 0: the
  cursor then stays where it is.
\<close>

definition stalls :: "platform \<Rightarrow> GoTLSConfig \<Rightarrow> byte list \<Rightarrow> nat \<Rightarrow> bool" where
  "stalls pf gc instHex i \<longleftrightarrow>
     i < length instHex \<and> goElfArch gc = ''amd64'' \<and>
     (case x86asm_Decode pf (drop i instHex) 64 of Inl _ \<Rightarrow> False | Inr inst \<Rightarrow> Len inst = 0)"

text \<open>
  The invariant of the loop: the offsets gathered so far increase strictly, lie before the
  cursor \<open>i\<close> and inside a function body of \<open>n\<close> bytes.
\<close>

definition offsets_inv :: "nat \<Rightarrow> nat \<Rightarrow> nat list \<Rightarrow> bool" where
  "offsets_inv n i offsets \<longleftrightarrow>
     sorted_wrt (<) offsets \<and> (\<forall>a \<in> set offsets. a < i \<and> a < n)"

subsection \<open>A concrete platform and binary\<close>

text \<open>
  Stand-ins for the library decoders, used where a statement is run on concrete bytes.
  The x86 one knows the two one-byte instructions \<^verbatim>\<open>RET\<close> (\<open>C3\<close>) and \<^verbatim>\<open>NOP\<close>
  (\<open>90\<close>) and the three-byte \<^verbatim>\<open>RET imm16\<close> (\<open>C2\<close> and two bytes), and rejects every
  other first byte (as the 64-bit mode rejects \<open>06\<close>); the arm64
  one knows the words of \<^verbatim>\<open>RET\<close> (\<open>D65F03C0\<close>) and \<^verbatim>\<open>NOP\<close> (\<open>D503201F\<close>), little
  endian, and rejects a source shorter than four bytes.
\<close>

definition demo_x86asm_Decode :: "byte list \<Rightarrow> nat \<Rightarrow> error + x86_Inst" where
  "demo_x86asm_Decode src mode =
     (case src of
        [] \<Rightarrow> Inl (LibError ''truncated instruction'')
      | b # rest \<Rightarrow>
          if b = 0xC3 then Inr \<lparr>Op = RET, Len = 1\<rparr>
          else if b = 0x90 then Inr \<lparr>Op = NOP, Len = 1\<rparr>
          else if b = 0xC2 then
            (if length rest < 2 then Inl (LibError ''truncated instruction'')
             else Inr \<lparr>Op = RET, Len = 3\<rparr>)
          else Inl (LibError ''unrecognized instruction''))"

definition demo_arm64asm_Decode :: "byte list \<Rightarrow> error + arm64_Inst" where
  "demo_arm64asm_Decode src =
     (if length src < 4 then Inl (LibError ''truncated instruction'')
      else if take 4 src = [0xC0, 0x03, 0x5F, 0xD6] then Inr \<lparr>arm64_Op = arm64_RET\<rparr>
      else if take 4 src = [0x1F, 0x20, 0x03, 0xD5] then Inr \<lparr>arm64_Op = arm64_other 0\<rparr>
      else Inl (LibError ''unknown instruction''))"

definition demo_Machine_String :: "16 word \<Rightarrow> string" where
  "demo_Machine_String m =
     (if m = 62 then ''EM_X86_64'' else if m = 183 then ''EM_AARCH64''
      else if m = 3 then ''EM_386'' else ''EM_other'')"

text \<open>
  A binary of machine \<open>m\<close> with a null section and a code section at address
  \<open>0x401000\<close> holding \<open>body\<close>, and one static symbol, the TLS read function, of
  address \<open>v\<close> and the size of \<open>body\<close>; it has no dynamic symbol table.
\<close>

definition demo_symbol :: "64 word \<Rightarrow> byte list \<Rightarrow> Symbol" where
  "demo_symbol v body =
     \<lparr>Name = GoTlsReadFunc, Value = v, Size = of_nat (length body), Section = 1\<rparr>"

definition demo_elf :: "16 word \<Rightarrow> 64 word \<Rightarrow> byte list \<Rightarrow> elf_File" where
  "demo_elf m v body =
     \<lparr>Machine = m,
      Sections = [\<lparr>Addr = 0, Data = Inr \<lparr>elems = [], spare = []\<rparr>\<rparr>,
                  \<lparr>Addr = 0x401000, Data = Inr \<lparr>elems = body, spare = []\<rparr>\<rparr>],
      Symbols = ([demo_symbol v body], None),
      DynamicSymbols = ([], Some (LibError ''no symbol section''))\<rparr>"

definition demo_platform :: "string \<Rightarrow> elf_File \<Rightarrow> platform" where
  "demo_platform arch f =
     \<lparr>x86asm_Decode = demo_x86asm_Decode,
      arm64asm_Decode = demo_arm64asm_Decode,
      os_Stat = (\<lambda>p. if p = ''/bin/app'' then None else Some (LibError ''no such file'')),
      elf_Open = (\<lambda>p. if p = ''/bin/app'' then Inr f else Inl (LibError ''no such file'')),
      Machine_String = demo_Machine_String,
      GOARCH = arch\<rparr>"

text \<open>A configuration as the command line leaves it, and one after validation.\<close>

definition demo_config :: "string \<Rightarrow> string \<Rightarrow> GoTLSConfig" where
  "demo_config m ifname =
     \<lparr>Path = ''/bin/app'', PcapFile = [], KeylogFile = [], Model = m, Ifname = ifname,
      PcapFilter = [], goElfArch = [], goElf = None, ReadTlsAddrs = []\<rparr>"

definition demo_checked :: "string \<Rightarrow> elf_File \<Rightarrow> GoTLSConfig" where
  "demo_checked arch f = (demo_config ''text'' [])\<lparr>goElfArch := arch, goElf := Some f\<rparr>"

section \<open>Properties\<close>

subsection \<open>The scanning loop\<close>


lemma offsets_inv_step:
  "offsets_inv n i offsets \<Longrightarrow> 0 < k \<Longrightarrow> i < n \<Longrightarrow>
   offsets_inv n (i + k) (if b then offsets @ [i] else offsets)"
  by (auto simp: offsets_inv_def sorted_wrt_append)

lemma offsets_inv_final:
  "offsets_inv n i offsets \<Longrightarrow> offsets_inv n n offsets"
  by (simp add: offsets_inv_def)

text \<open>
  A loop that returns did not start at a stalling cursor, and it keeps the invariant up to
  the end of the bytes.
\<close>

lemma decode_loop_inv:
  assumes "decode_loop pf gc instHex i offsets = Some y"
  shows "\<not> stalls pf gc instHex i \<and>
         (offsets_inv (length instHex) i offsets \<longrightarrow> snd y = None \<longrightarrow>
            offsets_inv (length instHex) (length instHex) (fst y))"
proof (rule decode_loop.raw_induct
    [where P = "\<lambda>pf gc instHex i offsets y. \<not> stalls pf gc instHex i \<and>
         (offsets_inv (length instHex) i offsets \<longrightarrow> snd y = None \<longrightarrow>
            offsets_inv (length instHex) (length instHex) (fst y))", OF _ assms], goal_cases)
  case (1 loop pf gc instHex i offsets y)
  note IH = 1(1) and body = 1(2)
  have ns: "\<not> stalls pf gc instHex i"
  proof
    assume st: "stalls pf gc instHex i"
    then obtain inst where d: "x86asm_Decode pf (drop i instHex) 64 = Inr inst"
      and l: "Len inst = 0" and lt: "i < length instHex" and a: "goElfArch gc = ''amd64''"
      by (auto simp: stalls_def split: sum.splits)
    from body lt a d l
    have "loop pf gc instHex i (if Op inst = RET then offsets @ [i] else offsets) = Some y"
      by simp
    from IH[OF this] st show False by simp
  qed
  have "offsets_inv (length instHex) (length instHex) (fst y)"
    if inv: "offsets_inv (length instHex) i offsets" and ok: "snd y = None"
  proof (cases "i < length instHex")
    case False
    with body have "y = (offsets, None)" by simp
    with inv show ?thesis by (simp add: offsets_inv_final)
  next
    case lt: True
    show ?thesis
    proof (cases "goElfArch gc = ''amd64''")
      case a: True
      from body lt a ok obtain inst where d: "x86asm_Decode pf (drop i instHex) 64 = Inr inst"
        by (cases "x86asm_Decode pf (drop i instHex) 64") auto
      with body lt a
      have r: "loop pf gc instHex (i + Len inst)
                 (if Op inst = RET then offsets @ [i] else offsets) = Some y"
        by simp
      from ns lt a d have "0 < Len inst" by (simp add: stalls_def)
      from offsets_inv_step[OF inv this lt] IH[OF r] ok show ?thesis by simp
    next
      case a: False
      from body lt a ok obtain inst where d: "arm64asm_Decode pf (drop i instHex) = Inr inst"
        by (cases "arm64asm_Decode pf (drop i instHex)") auto
      with body lt a
      have r: "loop pf gc instHex (i + Arm64armInstSize)
                 (if arm64_Op inst = arm64_RET then offsets @ [i] else offsets) = Some y"
        by simp
      have "0 < Arm64armInstSize" by (simp add: Arm64armInstSize_def)
      from offsets_inv_step[OF inv this lt] IH[OF r] ok show ?thesis by simp
    qed
  qed
  with ns show ?case by simp
qed

text \<open>A loop started at a stalling cursor never returns.\<close>

lemma stalls_diverges:
  assumes "stalls pf gc instHex i"
  shows "decode_loop pf gc instHex i offsets = None"
proof (cases "decode_loop pf gc instHex i offsets")
  case None
  then show ?thesis .
next
  case (Some y)
  from decode_loop_inv[OF this] assms show ?thesis by simp
qed

text \<open>
  When the x86 decoder never reports length 0, the loop returns from every cursor, and what
  it returns is read off the chain of steps from there: the offsets at the end of the
  chain when the cursor has left the bytes, the error of the decoder when it fails at the
  end of the chain. The distance of the cursor to the end of the bytes decreases at every
  step.
\<close>

lemma decode_loop_run:
  assumes pos: "goElfArch gc = ''amd64'' \<longrightarrow>
                  (\<forall>src inst. x86asm_Decode pf src 64 = Inr inst \<longrightarrow> 0 < Len inst)"
  shows "\<exists>i' offsets'.
           (scan_step pf gc instHex)\<^sup>*\<^sup>* (i, offsets) (i', offsets') \<and>
           ((length instHex \<le> i' \<and>
               decode_loop pf gc instHex i offsets = Some (offsets', None)) \<or>
            (\<exists>err. decode_fails pf gc instHex i' err \<and>
               decode_loop pf gc instHex i offsets = Some ([], Some err)))"
proof (induction "length instHex - i" arbitrary: i offsets rule: less_induct)
  case less
  show ?case
  proof (cases "i < length instHex")
    case False
    then have "decode_loop pf gc instHex i offsets = Some (offsets, None)"
      by (subst decode_loop.simps) simp
    with False show ?thesis by (intro exI[of _ i] exI[of _ offsets]) simp
  next
    case lt: True
    show ?thesis
    proof (cases "goElfArch gc = ''amd64''")
      case a: True
      show ?thesis
      proof (cases "x86asm_Decode pf (drop i instHex) 64")
        case (Inl err)
        with lt a have "decode_loop pf gc instHex i offsets = Some ([], Some err)"
          by (subst decode_loop.simps) simp
        moreover from Inl lt a have "decode_fails pf gc instHex i err"
          by (simp add: decode_fails_def)
        ultimately show ?thesis by (intro exI[of _ i] exI[of _ offsets]) auto
      next
        case (Inr inst)
        let ?o = "if Op inst = RET then offsets @ [i] else offsets"
        from pos a Inr have "0 < Len inst" by blast
        with lt have "length instHex - (i + Len inst) < length instHex - i" by arith
        from less[OF this, of ?o] obtain i' offsets' where
          run: "(scan_step pf gc instHex)\<^sup>*\<^sup>* (i + Len inst, ?o) (i', offsets')" and
          res: "(length instHex \<le> i' \<and>
                   decode_loop pf gc instHex (i + Len inst) ?o = Some (offsets', None)) \<or>
                (\<exists>err. decode_fails pf gc instHex i' err \<and>
                   decode_loop pf gc instHex (i + Len inst) ?o = Some ([], Some err))"
          by blast
        from lt a Inr have "scan_step pf gc instHex (i, offsets) (i + Len inst, ?o)"
          by (rule step_amd64)
        then have run': "(scan_step pf gc instHex)\<^sup>*\<^sup>* (i, offsets) (i', offsets')"
          using run by (rule converse_rtranclp_into_rtranclp)
        from lt a Inr
        have "decode_loop pf gc instHex i offsets = decode_loop pf gc instHex (i + Len inst) ?o"
          by (subst decode_loop.simps) simp
        with res run' show ?thesis by (intro exI[of _ i'] exI[of _ offsets']) auto
      qed
    next
      case a: False
      show ?thesis
      proof (cases "arm64asm_Decode pf (drop i instHex)")
        case (Inl err)
        with lt a have "decode_loop pf gc instHex i offsets = Some ([], Some err)"
          by (subst decode_loop.simps) simp
        moreover from Inl lt a have "decode_fails pf gc instHex i err"
          by (simp add: decode_fails_def)
        ultimately show ?thesis by (intro exI[of _ i] exI[of _ offsets]) auto
      next
        case (Inr inst)
        let ?o = "if arm64_Op inst = arm64_RET then offsets @ [i] else offsets"
        from lt have "length instHex - (i + Arm64armInstSize) < length instHex - i"
          by (simp add: Arm64armInstSize_def)
        from less[OF this, of ?o] obtain i' offsets' where
          run: "(scan_step pf gc instHex)\<^sup>*\<^sup>* (i + Arm64armInstSize, ?o) (i', offsets')" and
          res: "(length instHex \<le> i' \<and>
                   decode_loop pf gc instHex (i + Arm64armInstSize) ?o = Some (offsets', None)) \<or>
                (\<exists>err. decode_fails pf gc instHex i' err \<and>
                   decode_loop pf gc instHex (i + Arm64armInstSize) ?o = Some ([], Some err))"
          by blast
        from lt a Inr have "scan_step pf gc instHex (i, offsets) (i + Arm64armInstSize, ?o)"
          by (rule step_arm64)
        then have run': "(scan_step pf gc instHex)\<^sup>*\<^sup>* (i, offsets) (i', offsets')"
          using run by (rule converse_rtranclp_into_rtranclp)
        from lt a Inr
        have "decode_loop pf gc instHex i offsets =
                decode_loop pf gc instHex (i + Arm64armInstSize) ?o"
          by (subst decode_loop.simps) simp
        with res run' show ?thesis by (intro exI[of _ i'] exI[of _ offsets']) auto
      qed
    qed
  qed
qed

text \<open>A step moves the cursor forward, by the length of the instruction or by 4.\<close>

lemma scan_step_advances:
  assumes pos: "goElfArch gc = ''amd64'' \<longrightarrow>
                  (\<forall>src inst. x86asm_Decode pf src 64 = Inr inst \<longrightarrow> 0 < Len inst)"
    and st: "scan_step pf gc instHex (i, offsets) (i', offsets')"
  shows "i < i' \<and>
         (goElfArch gc = ''amd64'' \<longrightarrow>
            (\<exists>inst. x86asm_Decode pf (drop i instHex) 64 = Inr inst \<and> i' = i + Len inst)) \<and>
         (goElfArch gc \<noteq> ''amd64'' \<longrightarrow> i' = i + 4)"
  using st
proof (cases rule: scan_step.cases)
  case (step_amd64 inst)
  with pos have "0 < Len inst" by blast
  with step_amd64 show ?thesis by simp
next
  case (step_arm64 inst)
  then show ?thesis by (simp add: Arm64armInstSize_def)
qed

lemmas demo_defs = demo_platform_def demo_checked_def demo_config_def demo_elf_def
  demo_symbol_def demo_x86asm_Decode_def demo_arm64asm_Decode_def demo_Machine_String_def

subsection \<open>Symbol resolution\<close>

lemma range_symbols_none:
  "(\<forall>s \<in> set ss. Name s \<noteq> symbolName) \<Longrightarrow> range_symbols ss symbolName = None"
  by (induction ss) auto

lemma range_symbols_first:
  "Name s = symbolName \<Longrightarrow> (\<forall>x \<in> set pre. Name x \<noteq> symbolName) \<Longrightarrow>
   range_symbols (pre @ s # post) symbolName = Some s"
  by (induction pre) auto

lemma allSymbs_append: "allSymbs f = fst (Symbols f) @ fst (DynamicSymbols f)"
  by (simp add: allSymbs_def Let_def)

text \<open>
  Claim C4. Resolution searches the static symbol table followed by the dynamic one and
  returns the first entry whose name is exactly the requested name: with both tables empty
  it fails with the error "no symbols found", with no entry of that name it fails with
  \<open>ErrorSymbolNotFound\<close>, and an entry of that name before which no entry has the name
  is the one resolved, whatever follows it. The two failures are what \<open>findRetOffsets\<close>
  returns.
\<close>

theorem resolve_first_exact_match:
  "let tbl = fst (Symbols f) @ fst (DynamicSymbols f); r = resolve_symbol f symbolName in
     (tbl = [] \<longrightarrow> r = Inl NoSymbolsFound) \<and>
     (tbl \<noteq> [] \<and> (\<forall>s \<in> set tbl. Name s \<noteq> symbolName) \<longrightarrow> r = Inl ErrorSymbolNotFound) \<and>
     (\<forall>pre s post. tbl = pre @ s # post \<and> Name s = symbolName \<and>
        (\<forall>x \<in> set pre. Name x \<noteq> symbolName) \<longrightarrow> r = Inr s) \<and>
     (goElf gc = Some f \<longrightarrow>
        (\<forall>err. r = Inl err \<longrightarrow> findRetOffsets pf gc symbolName = Returns ([], Some err)))"
proof -
  let ?tbl = "fst (Symbols f) @ fst (DynamicSymbols f)"
  let ?r = "resolve_symbol f symbolName"
  have a: "?tbl = [] \<longrightarrow> ?r = Inl NoSymbolsFound"
    by (simp add: resolve_symbol_def allSymbs_append)
  have b: "?tbl \<noteq> [] \<and> (\<forall>s \<in> set ?tbl. Name s \<noteq> symbolName) \<longrightarrow> ?r = Inl ErrorSymbolNotFound"
    using range_symbols_none[of ?tbl symbolName]
    by (simp add: resolve_symbol_def allSymbs_append)
  have c: "\<forall>pre s post. ?tbl = pre @ s # post \<and> Name s = symbolName \<and>
        (\<forall>x \<in> set pre. Name x \<noteq> symbolName) \<longrightarrow> ?r = Inr s"
  proof (intro allI impI)
    fix pre s post
    assume m: "?tbl = pre @ s # post \<and> Name s = symbolName \<and>
        (\<forall>x \<in> set pre. Name x \<noteq> symbolName)"
    then have eq: "allSymbs f = pre @ s # post" by (simp only: allSymbs_append)
    from m have "range_symbols (pre @ s # post) symbolName = Some s"
      by (intro range_symbols_first) auto
    with eq show "?r = Inr s" by (simp add: resolve_symbol_def)
  qed
  have d: "goElf gc = Some f \<longrightarrow>
        (\<forall>err. ?r = Inl err \<longrightarrow> findRetOffsets pf gc symbolName = Returns ([], Some err))"
    by (simp add: findRetOffsets_def)
  from a b c d show ?thesis by (simp only: Let_def)
qed

text \<open>
  The theorem at three binaries: one whose static table holds a symbol whose name differs
  in case only, then the function, and whose dynamic table holds the name again at another
  address (the static entry wins); one with no table; one without the name looked for.
\<close>

theorem resolve_first_exact_match_witness:
  "resolve_symbol
     ((demo_elf 62 0x401000 [0xC3])
        \<lparr>Symbols := ([(demo_symbol 0x400800 [0x90])\<lparr>Name := ''crypto/tls.(*conn).read''\<rparr>,
                      demo_symbol 0x401000 [0xC3]], None),
         DynamicSymbols := ([demo_symbol 0x401001 []], None)\<rparr>)
     GoTlsReadFunc
   = Inr (demo_symbol 0x401000 [0xC3]) \<and>
   resolve_symbol ((demo_elf 62 0x401000 [0xC3])\<lparr>Symbols := ([], Some (LibError ''no symbol section''))\<rparr>)
     GoTlsReadFunc
   = Inl NoSymbolsFound \<and>
   resolve_symbol (demo_elf 62 0x401000 [0xC3]) ''crypto/tls.(*Conn).Write''
   = Inl ErrorSymbolNotFound \<and>
   findRetOffsets (demo_platform ''amd64'' (demo_elf 62 0x401000 [0xC3]))
     (demo_checked ''amd64'' (demo_elf 62 0x401000 [0xC3])) ''crypto/tls.(*Conn).Write''
   = Returns ([], Some ErrorSymbolNotFound)"
proof -
  let ?s0 = "(demo_symbol 0x400800 [0x90])\<lparr>Name := ''crypto/tls.(*conn).read''\<rparr>"
  let ?s1 = "demo_symbol 0x401000 [0xC3]"
  let ?s2 = "demo_symbol 0x401001 []"
  let ?f1 = "(demo_elf 62 0x401000 [0xC3])
        \<lparr>Symbols := ([?s0, ?s1], None), DynamicSymbols := ([?s2], None)\<rparr>"
  let ?f2 = "(demo_elf 62 0x401000 [0xC3])\<lparr>Symbols := ([], Some (LibError ''no symbol section''))\<rparr>"
  let ?f3 = "demo_elf 62 0x401000 [0xC3]"
  let ?w = "''crypto/tls.(*Conn).Write''"
  have t1: "fst (Symbols ?f1) @ fst (DynamicSymbols ?f1) = [?s0, ?s1, ?s2]"
    by (simp add: demo_elf_def)
  have n: "Name ?s0 \<noteq> GoTlsReadFunc" "Name ?s1 = GoTlsReadFunc"
    by (simp_all add: demo_symbol_def GoTlsReadFunc_def)
  have dec: "[?s0, ?s1, ?s2] = [?s0] @ ?s1 # [?s2] \<and> Name ?s1 = GoTlsReadFunc \<and>
             (\<forall>x \<in> set [?s0]. Name x \<noteq> GoTlsReadFunc)"
    using n by simp
  have "\<forall>pre s post. [?s0, ?s1, ?s2] = pre @ s # post \<and> Name s = GoTlsReadFunc \<and>
          (\<forall>x \<in> set pre. Name x \<noteq> GoTlsReadFunc) \<longrightarrow>
          resolve_symbol ?f1 GoTlsReadFunc = Inr s"
    using resolve_first_exact_match[of ?f1 GoTlsReadFunc "demo_checked ''amd64'' ?f3"
        "demo_platform ''amd64'' ?f3"]
    unfolding Let_def t1 by blast
  with dec have a: "resolve_symbol ?f1 GoTlsReadFunc = Inr ?s1" by blast
  have t2: "fst (Symbols ?f2) @ fst (DynamicSymbols ?f2) = []"
    by (simp add: demo_elf_def)
  have b: "resolve_symbol ?f2 GoTlsReadFunc = Inl NoSymbolsFound"
    using resolve_first_exact_match[of ?f2 GoTlsReadFunc "demo_checked ''amd64'' ?f3"
        "demo_platform ''amd64'' ?f3"]
    unfolding Let_def t2 by blast
  have t3: "fst (Symbols ?f3) @ fst (DynamicSymbols ?f3) = [?s1]"
    by (simp add: demo_elf_def)
  have n3: "Name ?s1 \<noteq> ?w" by (simp add: demo_symbol_def GoTlsReadFunc_def)
  have ne3: "[?s1] \<noteq> [] \<and> (\<forall>s \<in> set [?s1]. Name s \<noteq> ?w)"
    using n3 by simp
  have c: "resolve_symbol ?f3 ?w = Inl ErrorSymbolNotFound"
    and d: "goElf (demo_checked ''amd64'' ?f3) = Some ?f3 \<longrightarrow>
        (\<forall>err. resolve_symbol ?f3 ?w = Inl err \<longrightarrow>
           findRetOffsets (demo_platform ''amd64'' ?f3) (demo_checked ''amd64'' ?f3) ?w
             = Returns ([], Some err))"
    using ne3 resolve_first_exact_match[of ?f3 ?w "demo_checked ''amd64'' ?f3"
        "demo_platform ''amd64'' ?f3"]
    unfolding Let_def t3 by blast+
  have "goElf (demo_checked ''amd64'' ?f3) = Some ?f3" by (simp add: demo_checked_def)
  with c d have e: "findRetOffsets (demo_platform ''amd64'' ?f3) (demo_checked ''amd64'' ?f3) ?w
             = Returns ([], Some ErrorSymbolNotFound)" by blast
  from a b c e show ?thesis by (simp only: simp_thms)
qed

subsection \<open>Extraction of the bytes of the function\<close>

lemma unat_as_uint: "int (unat (w::64 word)) = uint w"
  by simp

text \<open>
  Claim C2, as amended. For a resolved symbol whose section index is valid and whose section
  data are read, extraction computes \<open>start = (address - section address) mod 2^64\<close> and
  \<open>end = (start + size) mod 2^64\<close>; when \<open>start \<le> end \<le> cap(sectionBytes)\<close> the bytes
  from \<open>start\<close> up to \<open>end\<close> are scanned, and whenever that condition is violated the
  slice expression panics: no error is returned to the caller.
\<close>

theorem extract_range_or_panic:
  assumes "goElf gc = Some f"
    and "resolve_symbol f symbolName = Inr symbol"
    and "0 \<le> Section symbol" and "Section symbol < int (length (Sections f))"
    and "Data (Sections f ! nat (Section symbol)) = Inr elfText"
  shows "let start = (uint (Value symbol) - uint (Addr (Sections f ! nat (Section symbol)))) mod 2 ^ 64;
             end = (start + uint (Size symbol)) mod 2 ^ 64
         in findRetOffsets pf gc symbolName =
              (if start \<le> end \<and> end \<le> int (cap elfText)
               then scan_bytes pf gc
                      (take (nat (end - start)) (drop (nat start) (elems elfText @ spare elfText)))
               else Panics SliceBoundsOutOfRange)"
proof -
  define s where "s = Value symbol - Addr (Sections f ! nat (Section symbol))"
  define e where "e = s + Size symbol"
  have us: "uint s = (uint (Value symbol) - uint (Addr (Sections f ! nat (Section symbol)))) mod 2 ^ 64"
    by (simp add: s_def uint_word_ariths)
  have ue: "uint e = (uint s + uint (Size symbol)) mod 2 ^ 64"
    by (simp add: e_def uint_word_ariths)
  have le1: "unat s \<le> unat e \<longleftrightarrow> uint s \<le> uint e"
    by (simp add: word_le_nat_alt[symmetric] word_le_def)
  have le2: "unat e \<le> cap elfText \<longleftrightarrow> uint e \<le> int (cap elfText)"
    by (metis unat_as_uint of_nat_le_iff)
  have d1: "unat e - unat s = nat (uint e - uint s)"
    by (metis unat_as_uint nat_minus_as_int)
  have d2: "unat s = nat (uint s)"
    by (rule unat_eq_nat_uint)
  have "findRetOffsets pf gc symbolName =
          (case slice_expr elfText s e of None \<Rightarrow> Panics SliceBoundsOutOfRange
           | Some instHex \<Rightarrow> scan_bytes pf gc instHex)"
    using assms by (simp add: findRetOffsets_def extract_bytes_def Let_def s_def e_def split: option.splits)
  also have "\<dots> = (if uint s \<le> uint e \<and> uint e \<le> int (cap elfText)
               then scan_bytes pf gc
                      (take (nat (uint e - uint s)) (drop (nat (uint s)) (elems elfText @ spare elfText)))
               else Panics SliceBoundsOutOfRange)"
  proof (cases "uint s \<le> uint e \<and> uint e \<le> int (cap elfText)")
    case True
    with le1 le2 have "unat s \<le> unat e \<and> unat e \<le> cap elfText" by blast
    then have "slice_expr elfText s e =
                 Some (take (unat e - unat s) (drop (unat s) (elems elfText @ spare elfText)))"
      by (simp add: slice_expr_def)
    also have "\<dots> = Some (take (nat (uint e - uint s)) (drop (unat s) (elems elfText @ spare elfText)))"
      by (simp only: d1)
    also have "\<dots> = Some (take (nat (uint e - uint s)) (drop (nat (uint s)) (elems elfText @ spare elfText)))"
      by (simp only: d2)
    finally show ?thesis using True by simp
  next
    case False
    with le1 le2 have "\<not> (unat s \<le> unat e \<and> unat e \<le> cap elfText)" by blast
    then have "slice_expr elfText s e = None"
      by (simp add: slice_expr_def)
    with False show ?thesis by auto
  qed
  finally show ?thesis
    by (simp only: Let_def us[symmetric] ue[symmetric])
qed

text \<open>
  The theorem at a symbol of three bytes that starts two bytes into a section of three
  bytes: \<open>start = 2\<close>, \<open>end = 5\<close>, beyond the capacity 3.
\<close>

theorem extract_range_or_panic_witness:
  "goElf (demo_checked ''amd64'' (demo_elf 62 0x401002 [0x90, 0xC3, 0xC3]))
     = Some (demo_elf 62 0x401002 [0x90, 0xC3, 0xC3]) \<and>
   resolve_symbol (demo_elf 62 0x401002 [0x90, 0xC3, 0xC3]) GoTlsReadFunc
     = Inr (demo_symbol 0x401002 [0x90, 0xC3, 0xC3]) \<and>
   0 \<le> Section (demo_symbol 0x401002 [0x90, 0xC3, 0xC3]) \<and>
   Section (demo_symbol 0x401002 [0x90, 0xC3, 0xC3])
     < int (length (Sections (demo_elf 62 0x401002 [0x90, 0xC3, 0xC3]))) \<and>
   Data (Sections (demo_elf 62 0x401002 [0x90, 0xC3, 0xC3])
           ! nat (Section (demo_symbol 0x401002 [0x90, 0xC3, 0xC3])))
     = Inr \<lparr>elems = [0x90, 0xC3, 0xC3], spare = []\<rparr> \<and>
   findRetOffsets (demo_platform ''amd64'' (demo_elf 62 0x401002 [0x90, 0xC3, 0xC3]))
       (demo_checked ''amd64'' (demo_elf 62 0x401002 [0x90, 0xC3, 0xC3])) GoTlsReadFunc
     = Panics SliceBoundsOutOfRange"
proof -
  let ?body = "[0x90, 0xC3, 0xC3] :: byte list"
  let ?f = "demo_elf 62 0x401002 ?body"
  let ?sym = "demo_symbol 0x401002 ?body"
  let ?gc = "demo_checked ''amd64'' ?f"
  let ?pf = "demo_platform ''amd64'' ?f"
  have h1: "goElf ?gc = Some ?f"
    by (simp add: demo_checked_def)
  have h2: "resolve_symbol ?f GoTlsReadFunc = Inr ?sym"
    by (simp add: resolve_symbol_def allSymbs_def demo_elf_def demo_symbol_def)
  have h3: "0 \<le> Section ?sym" by (simp add: demo_symbol_def)
  have h4: "Section ?sym < int (length (Sections ?f))"
    by (simp add: demo_symbol_def demo_elf_def)
  have h5: "Data (Sections ?f ! nat (Section ?sym)) = Inr \<lparr>elems = ?body, spare = []\<rparr>"
    by (simp add: demo_symbol_def demo_elf_def)
  have sec: "Addr (Sections ?f ! nat (Section ?sym)) = 0x401000"
    by (simp add: demo_symbol_def demo_elf_def)
  have v: "Value ?sym = 0x401002" "Size ?sym = 3"
    by (simp_all add: demo_symbol_def)
  from extract_range_or_panic[OF h1 h2 h3 h4 h5, of ?pf]
  have "findRetOffsets ?pf ?gc GoTlsReadFunc = Panics SliceBoundsOutOfRange"
    by (simp add: Let_def sec v cap_def)
  with h1 h2 h3 h4 h5 show ?thesis by (simp only: simp_thms)
qed

text \<open>
  Claim C2 as stated fails: a symbol whose address lies below the address of its section
  makes \<open>start\<close> wrap around, and the call panics where the claim has it return an error.
\<close>

theorem corrupt_range_panics:
  "Value (demo_symbol 0x400000 [0xC3]) < Addr (Sections (demo_elf 62 0x400000 [0xC3]) ! 1) \<and>
   findRetOffsets (demo_platform ''amd64'' (demo_elf 62 0x400000 [0xC3]))
       (demo_checked ''amd64'' (demo_elf 62 0x400000 [0xC3])) GoTlsReadFunc
     = Panics SliceBoundsOutOfRange"
  by (simp add: findRetOffsets_def resolve_symbol_def allSymbs_def extract_bytes_def
      slice_expr_def cap_def demo_defs)

subsection \<open>What the resolver returns after the scan\<close>




text \<open>
  Claim C5. For every function byte slice that decodes completely with no return
  instruction recorded, the resolver returns \<open>ErrorNoRetFound\<close>; it never returns an
  empty offset list as a success.
\<close>

theorem no_ret_is_an_error:
  assumes "goElf gc = Some f"
    and "resolve_symbol f symbolName = Inr symbol"
    and "extract_bytes f symbol = Returns (Inr instHex)"
    and "decodeInstruction pf gc instHex = Some ([], None)"
  shows "findRetOffsets pf gc symbolName = Returns ([], Some ErrorNoRetFound) \<and>
         (\<forall>pf' gc' name. findRetOffsets pf' gc' name \<noteq> Returns ([], None))"
proof
  from assms show "findRetOffsets pf gc symbolName = Returns ([], Some ErrorNoRetFound)"
    by (simp add: findRetOffsets_def scan_bytes_def)
  show "\<forall>pf' gc' name. findRetOffsets pf' gc' name \<noteq> Returns ([], None)"
    by (auto simp: findRetOffsets_def scan_bytes_def
        split: option.splits sum.splits outcome.splits prod.splits if_splits)
qed

text \<open>The theorem on amd64, at a body of two \<^verbatim>\<open>NOP\<close>s.\<close>

theorem no_ret_is_an_error_witness:
  "goElf (demo_checked ''amd64'' (demo_elf 62 0x401000 [0x90, 0x90]))
     = Some (demo_elf 62 0x401000 [0x90, 0x90]) \<and>
   resolve_symbol (demo_elf 62 0x401000 [0x90, 0x90]) GoTlsReadFunc
     = Inr (demo_symbol 0x401000 [0x90, 0x90]) \<and>
   extract_bytes (demo_elf 62 0x401000 [0x90, 0x90]) (demo_symbol 0x401000 [0x90, 0x90])
     = Returns (Inr [0x90, 0x90]) \<and>
   decodeInstruction (demo_platform ''amd64'' (demo_elf 62 0x401000 [0x90, 0x90]))
       (demo_checked ''amd64'' (demo_elf 62 0x401000 [0x90, 0x90])) [0x90, 0x90]
     = Some ([], None) \<and>
   findRetOffsets (demo_platform ''amd64'' (demo_elf 62 0x401000 [0x90, 0x90]))
       (demo_checked ''amd64'' (demo_elf 62 0x401000 [0x90, 0x90])) GoTlsReadFunc
     = Returns ([], Some ErrorNoRetFound)"
proof -
  let ?body = "[0x90, 0x90] :: byte list"
  let ?f = "demo_elf 62 0x401000 ?body"
  let ?gc = "demo_checked ''amd64'' ?f"
  let ?pf = "demo_platform ''amd64'' ?f"
  have h1: "goElf ?gc = Some ?f"
    by (simp add: demo_checked_def)
  have h2: "resolve_symbol ?f GoTlsReadFunc = Inr (demo_symbol 0x401000 ?body)"
    by (simp add: resolve_symbol_def allSymbs_def demo_elf_def demo_symbol_def)
  have h3: "extract_bytes ?f (demo_symbol 0x401000 ?body) = Returns (Inr ?body)"
    by (simp add: extract_bytes_def slice_expr_def cap_def demo_elf_def demo_symbol_def)
  have h4: "decodeInstruction ?pf ?gc ?body = Some ([], None)"
    by (simp add: decodeInstruction_def decode_loop.simps demo_defs)
  from no_ret_is_an_error[OF h1 h2 h3 h4]
  have "findRetOffsets ?pf ?gc GoTlsReadFunc = Returns ([], Some ErrorNoRetFound)"
    by (rule conjunct1)
  with h1 h2 h3 h4 show ?thesis by (simp only: simp_thms)
qed

subsection \<open>The scan\<close>

text \<open>
  Claim C6. On amd64, with a decoder that reads the byte \<open>C3\<close> as the one-byte \<^verbatim>\<open>RET\<close>
  and the byte \<open>90\<close> as the one-byte \<^verbatim>\<open>NOP\<close>, scanning the body \<open>C3\<close> succeeds with
  the offsets \<open>[0]\<close>, and scanning \<^verbatim>\<open>NOP; RET; RET\<close> succeeds with the offsets \<open>[1, 2]\<close>.
\<close>

theorem amd64_ret_scenarios:
  assumes "goElfArch gc = ''amd64''"
    and "\<forall>rest. x86asm_Decode pf (0xC3 # rest) 64 = Inr \<lparr>Op = RET, Len = 1\<rparr>"
    and "\<forall>rest. x86asm_Decode pf (0x90 # rest) 64 = Inr \<lparr>Op = NOP, Len = 1\<rparr>"
  shows "decodeInstruction pf gc [0xC3] = Some ([0], None) \<and>
         decodeInstruction pf gc [0x90, 0xC3, 0xC3] = Some ([1, 2], None)"
  using assms by (simp add: decodeInstruction_def decode_loop.simps)

text \<open>The stand-in decoder reads the two bytes so, and the scan gives the offsets.\<close>

theorem amd64_ret_scenarios_witness:
  "goElfArch (demo_checked ''amd64'' (demo_elf 62 0x401000 [0xC3])) = ''amd64'' \<and>
   (\<forall>rest. x86asm_Decode (demo_platform ''amd64'' (demo_elf 62 0x401000 [0xC3])) (0xC3 # rest) 64
             = Inr \<lparr>Op = RET, Len = 1\<rparr>) \<and>
   (\<forall>rest. x86asm_Decode (demo_platform ''amd64'' (demo_elf 62 0x401000 [0xC3])) (0x90 # rest) 64
             = Inr \<lparr>Op = NOP, Len = 1\<rparr>) \<and>
   decodeInstruction (demo_platform ''amd64'' (demo_elf 62 0x401000 [0xC3]))
       (demo_checked ''amd64'' (demo_elf 62 0x401000 [0xC3])) [0xC3]
     = Some ([0], None) \<and>
   decodeInstruction (demo_platform ''amd64'' (demo_elf 62 0x401000 [0xC3]))
       (demo_checked ''amd64'' (demo_elf 62 0x401000 [0xC3])) [0x90, 0xC3, 0xC3]
     = Some ([1, 2], None)"
proof -
  let ?f = "demo_elf 62 0x401000 [0xC3]"
  let ?gc = "demo_checked ''amd64'' ?f"
  let ?pf = "demo_platform ''amd64'' ?f"
  have h1: "goElfArch ?gc = ''amd64''"
    by (simp add: demo_checked_def)
  have h2: "\<forall>rest. x86asm_Decode ?pf (0xC3 # rest) 64 = Inr \<lparr>Op = RET, Len = 1\<rparr>"
    by (simp add: demo_platform_def demo_x86asm_Decode_def)
  have h3: "\<forall>rest. x86asm_Decode ?pf (0x90 # rest) 64 = Inr \<lparr>Op = NOP, Len = 1\<rparr>"
    by (simp add: demo_platform_def demo_x86asm_Decode_def)
  from amd64_ret_scenarios[OF h1 h2 h3] h1 h2 h3 show ?thesis by (simp only: simp_thms)
qed

text \<open>
  Claim C7. Whenever the scan succeeds, for either architecture, the offsets it returns
  increase strictly and every one of them lies in \<open>[0, len(functionBytes))\<close>.
\<close>

theorem offsets_increasing_in_range:
  assumes "decodeInstruction pf gc instHex = Some (offsets, None)"
  shows "sorted_wrt (<) offsets \<and> (\<forall>a \<in> set offsets. 0 \<le> a \<and> a < length instHex)"
proof -
  have "offsets_inv (length instHex) 0 []" by (simp add: offsets_inv_def)
  with assms decode_loop_inv[of pf gc instHex 0 "[]" "(offsets, None)"]
  have "offsets_inv (length instHex) (length instHex) offsets"
    by (simp add: decodeInstruction_def)
  then show ?thesis by (simp add: offsets_inv_def)
qed

text \<open>The theorem on arm64, at \<^verbatim>\<open>RET; NOP; RET\<close>: the offsets are 0 and 8, of 12 bytes.\<close>

theorem offsets_increasing_in_range_witness:
  "decodeInstruction (demo_platform ''arm64'' (demo_elf 183 0x401000 []))
       (demo_checked ''arm64'' (demo_elf 183 0x401000 []))
       [0xC0, 0x03, 0x5F, 0xD6, 0x1F, 0x20, 0x03, 0xD5, 0xC0, 0x03, 0x5F, 0xD6]
     = Some ([0, 8], None) \<and>
   sorted_wrt (<) [0, 8 :: nat] \<and>
   list_all (\<lambda>a. 0 \<le> a \<and>
      a < length [0xC0, 0x03, 0x5F, 0xD6, 0x1F, 0x20, 0x03, 0xD5, 0xC0, 0x03, 0x5F, 0xD6 :: byte])
     [0, 8 :: nat]"
proof -
  let ?body = "[0xC0, 0x03, 0x5F, 0xD6, 0x1F, 0x20, 0x03, 0xD5, 0xC0, 0x03, 0x5F, 0xD6] :: byte list"
  let ?f = "demo_elf 183 0x401000 []"
  let ?gc = "demo_checked ''arm64'' ?f"
  let ?pf = "demo_platform ''arm64'' ?f"
  have h: "decodeInstruction ?pf ?gc ?body = Some ([0, 8], None)"
    by (simp add: decodeInstruction_def decode_loop.simps demo_defs Arm64armInstSize_def)
  from offsets_increasing_in_range[OF h] h show ?thesis by (simp add: list_all_iff)
qed

text \<open>
  Claim C8. The scan loop terminates on every byte slice and for either architecture tag.
  Each successful decode advances the cursor, by the length of the decoded instruction on
  amd64 (positive, as the decoder is taken to report it) and by the constant 4 on arm64;
  following these steps from cursor 0 the loop either meets a decode failure and returns
  its error, or ends with the cursor at or past the end of the slice and returns the
  offsets gathered on the way.
\<close>

theorem scan_returns:
  assumes "goElfArch gc = ''amd64'' \<longrightarrow>
             (\<forall>src inst. x86asm_Decode pf src 64 = Inr inst \<longrightarrow> 0 < Len inst)"
  shows "(\<exists>i offsets.
            (scan_step pf gc instHex)\<^sup>*\<^sup>* (0, []) (i, offsets) \<and>
            ((length instHex \<le> i \<and>
                decodeInstruction pf gc instHex = Some (offsets, None)) \<or>
             (\<exists>err. decode_fails pf gc instHex i err \<and>
                decodeInstruction pf gc instHex = Some ([], Some err)))) \<and>
         (\<forall>i offsets i' offsets'.
            scan_step pf gc instHex (i, offsets) (i', offsets') \<longrightarrow>
              i < i' \<and>
              (goElfArch gc = ''amd64'' \<longrightarrow>
                 (\<exists>inst. x86asm_Decode pf (drop i instHex) 64 = Inr inst \<and> i' = i + Len inst)) \<and>
              (goElfArch gc \<noteq> ''amd64'' \<longrightarrow> i' = i + 4))"
proof
  from decode_loop_run[OF assms, of instHex 0 "[]"]
  show "\<exists>i offsets.
            (scan_step pf gc instHex)\<^sup>*\<^sup>* (0, []) (i, offsets) \<and>
            ((length instHex \<le> i \<and>
                decodeInstruction pf gc instHex = Some (offsets, None)) \<or>
             (\<exists>err. decode_fails pf gc instHex i err \<and>
                decodeInstruction pf gc instHex = Some ([], Some err)))"
    by (simp only: decodeInstruction_def)
  from scan_step_advances[OF assms]
  show "\<forall>i offsets i' offsets'.
            scan_step pf gc instHex (i, offsets) (i', offsets') \<longrightarrow>
              i < i' \<and>
              (goElfArch gc = ''amd64'' \<longrightarrow>
                 (\<exists>inst. x86asm_Decode pf (drop i instHex) 64 = Inr inst \<and> i' = i + Len inst)) \<and>
              (goElfArch gc \<noteq> ''amd64'' \<longrightarrow> i' = i + 4)"
    by blast
qed

text \<open>
  The theorem on amd64 at \<^verbatim>\<open>NOP; RET 8; RET\<close>, of lengths 1, 3 and 1: the stand-in
  decoder only reports positive lengths, the cursor goes 0, 1, 4, 5 and the offsets are
  1 and 4.
\<close>

theorem scan_returns_witness:
  "\<exists>i. (scan_step (demo_platform ''amd64'' (demo_elf 62 0x401000 []))
           (demo_checked ''amd64'' (demo_elf 62 0x401000 []))
           [0x90, 0xC2, 0x08, 0x00, 0xC3])\<^sup>*\<^sup>* (0, []) (i, [1, 4]) \<and>
        length [0x90, 0xC2, 0x08, 0x00, 0xC3 :: byte] \<le> i \<and>
        decodeInstruction (demo_platform ''amd64'' (demo_elf 62 0x401000 []))
          (demo_checked ''amd64'' (demo_elf 62 0x401000 []))
          [0x90, 0xC2, 0x08, 0x00, 0xC3] = Some ([1, 4], None)"
proof -
  let ?f = "demo_elf 62 0x401000 []"
  let ?gc = "demo_checked ''amd64'' ?f"
  let ?pf = "demo_platform ''amd64'' ?f"
  let ?body = "[0x90, 0xC2, 0x08, 0x00, 0xC3] :: byte list"
  have h: "goElfArch ?gc = ''amd64'' \<longrightarrow>
      (\<forall>src inst. x86asm_Decode ?pf src 64 = Inr inst \<longrightarrow> 0 < Len inst)"
    by (auto simp: demo_platform_def demo_x86asm_Decode_def split: list.splits if_splits)
  have d: "decodeInstruction ?pf ?gc ?body = Some ([1, 4], None)"
    by (simp add: decodeInstruction_def decode_loop.simps demo_defs)
  from scan_returns[OF h, of ?body] obtain i offsets where
    run: "(scan_step ?pf ?gc ?body)\<^sup>*\<^sup>* (0, []) (i, offsets)" and
    res: "(length ?body \<le> i \<and> decodeInstruction ?pf ?gc ?body = Some (offsets, None)) \<or>
          (\<exists>err. decode_fails ?pf ?gc ?body i err \<and>
             decodeInstruction ?pf ?gc ?body = Some ([], Some err))"
    by blast
  from res d have "length ?body \<le> i \<and> offsets = [1, 4]" by auto
  with run d show ?thesis by blast
qed

subsection \<open>The capture model and the validation\<close>

text \<open>
  Claim C9. For every configuration whose capture model is pcap or pcapng and whose
  interface name is empty, \<open>Check\<close> fails with a configuration error before the binary is
  looked for or opened: no event happens, the configuration is left as it was (no binary,
  no offsets), and the result does not depend on the platform.
\<close>

theorem pcap_without_ifname_fails_early:
  assumes "Model gc = TlsCaptureModelPcap \<or> Model gc = TlsCaptureModelPcapng"
    and "Ifname gc = []"
  shows "Check pf gc =
           Returns (Some (if Path gc = [] then ErrorGoBINNotFound else PcapIfnameNotSet), gc, [])"
  using assms
  by (auto simp: Check_def checkModel_def TlsCaptureModelPcap_def TlsCaptureModelPcapng_def
      TlsCaptureModelKey_def TlsCaptureModelKeylog_def)

text \<open>The theorem at the model \<open>pcapng\<close> with no interface name.\<close>

theorem pcap_without_ifname_fails_early_witness:
  "(Model (demo_config ''pcapng'' []) = TlsCaptureModelPcap \<or>
    Model (demo_config ''pcapng'' []) = TlsCaptureModelPcapng) \<and>
   Ifname (demo_config ''pcapng'' []) = [] \<and>
   Check (demo_platform ''amd64'' (demo_elf 62 0x401000 [0xC3])) (demo_config ''pcapng'' [])
     = Returns (Some PcapIfnameNotSet, demo_config ''pcapng'' [], [])"
proof -
  let ?gc = "demo_config ''pcapng'' []"
  let ?pf = "demo_platform ''amd64'' (demo_elf 62 0x401000 [0xC3])"
  have h1: "Model ?gc = TlsCaptureModelPcap \<or> Model ?gc = TlsCaptureModelPcapng"
    by (simp add: demo_config_def TlsCaptureModelPcapng_def)
  have h2: "Ifname ?gc = []" by (simp add: demo_config_def)
  have p: "Path ?gc \<noteq> []" by (simp add: demo_config_def)
  from pcap_without_ifname_fails_early[OF h1 h2, of ?pf] p
  have "Check ?pf ?gc = Returns (Some PcapIfnameNotSet, ?gc, [])" by simp
  with h1 h2 show ?thesis by (simp only: simp_thms)
qed

text \<open>
  Claim C10. For every capture-model string that is none of the key-log and pcap
  identifiers, the empty string and unknown values among them, \<open>checkModel\<close> succeeds
  with the text model and returns no error.
\<close>

theorem unknown_model_is_text:
  assumes "Model gc \<notin> {TlsCaptureModelKeylog, TlsCaptureModelKey,
                        TlsCaptureModelPcap, TlsCaptureModelPcapng}"
  shows "checkModel gc = ((TlsCaptureModelText, None), [])"
  using assms by (simp add: checkModel_def)

text \<open>The theorem at the empty model and at a model in the wrong case.\<close>

theorem unknown_model_is_text_witness:
  "Model (demo_config [] ''eth0'') \<notin> {TlsCaptureModelKeylog, TlsCaptureModelKey,
                                        TlsCaptureModelPcap, TlsCaptureModelPcapng} \<and>
   checkModel (demo_config [] ''eth0'') = ((TlsCaptureModelText, None), []) \<and>
   Model (demo_config ''PCAP'' ''eth0'') \<notin> {TlsCaptureModelKeylog, TlsCaptureModelKey,
                                        TlsCaptureModelPcap, TlsCaptureModelPcapng} \<and>
   checkModel (demo_config ''PCAP'' ''eth0'') = ((TlsCaptureModelText, None), [])"
proof -
  have h1: "Model (demo_config [] ''eth0'') \<notin> {TlsCaptureModelKeylog, TlsCaptureModelKey,
              TlsCaptureModelPcap, TlsCaptureModelPcapng}"
    by (simp add: demo_config_def TlsCaptureModelKeylog_def TlsCaptureModelKey_def
        TlsCaptureModelPcap_def TlsCaptureModelPcapng_def)
  have h2: "Model (demo_config ''PCAP'' ''eth0'') \<notin> {TlsCaptureModelKeylog, TlsCaptureModelKey,
              TlsCaptureModelPcap, TlsCaptureModelPcapng}"
    by (simp add: demo_config_def TlsCaptureModelKeylog_def TlsCaptureModelKey_def
        TlsCaptureModelPcap_def TlsCaptureModelPcapng_def)
  from unknown_model_is_text[OF h1] unknown_model_is_text[OF h2] h1 h2
  show ?thesis by (simp only: simp_thms)
qed

text \<open>
  What \<open>Check\<close> does with a binary that is found and opened and whose machine is named
  neither as AArch64 nor as x86-64: it is classified as \<open>unsupport_arch\<close>, and the guard
  of line 93 returns the mismatch error before the switch of lines 97 to 102 is reached.
  The return of "unsupport CPU arch" in that switch is only taken where
  \<^verbatim>\<open>runtime.GOARCH\<close> is itself the string \<open>unsupport_arch\<close>, which no Go platform is.
\<close>

lemma other_machine_is_a_mismatch:
  assumes "Path gc \<noteq> []"
    and "snd (fst (checkModel gc)) = None"
    and "os_Stat pf (Path gc) = None"
    and "elf_Open pf (Path gc) = Inr f"
    and "Machine_String pf (Machine f) \<noteq> Machine_String pf EM_AARCH64"
    and "Machine_String pf (Machine f) \<noteq> Machine_String pf EM_X86_64"
  shows "Check pf gc =
           Returns (Some (if GOARCH pf = ''unsupport_arch''
                          then UnsupportCPUArch ''unsupport_arch''
                          else GoApplicationNotMatch (GOARCH pf) ''unsupport_arch''),
                    gc, snd (checkModel gc) @ [Stat (Path gc), Open (Path gc)])"
proof -
  obtain m evs where cm: "checkModel gc = ((m, None), evs)"
    using assms(2) by (cases "checkModel gc") auto
  from assms(5,6) have "classify_machine pf f = ''unsupport_arch''"
    by (simp add: classify_machine_def)
  with assms(1,3,4) cm show ?thesis
    by (simp add: Check_def Let_def)
qed

text \<open>So it is for a RISC-V binary (machine 243) on an arm64 host.\<close>

lemma other_machine_is_a_mismatch_example:
  "Path (demo_config ''text'' []) \<noteq> [] \<and>
   snd (fst (checkModel (demo_config ''text'' []))) = None \<and>
   os_Stat (demo_platform ''arm64'' (demo_elf 243 0x401000 [0xC3])) (Path (demo_config ''text'' []))
     = None \<and>
   elf_Open (demo_platform ''arm64'' (demo_elf 243 0x401000 [0xC3])) (Path (demo_config ''text'' []))
     = Inr (demo_elf 243 0x401000 [0xC3]) \<and>
   Machine_String (demo_platform ''arm64'' (demo_elf 243 0x401000 [0xC3]))
       (Machine (demo_elf 243 0x401000 [0xC3]))
     \<noteq> Machine_String (demo_platform ''arm64'' (demo_elf 243 0x401000 [0xC3])) EM_AARCH64 \<and>
   Machine_String (demo_platform ''arm64'' (demo_elf 243 0x401000 [0xC3]))
       (Machine (demo_elf 243 0x401000 [0xC3]))
     \<noteq> Machine_String (demo_platform ''arm64'' (demo_elf 243 0x401000 [0xC3])) EM_X86_64 \<and>
   Check (demo_platform ''arm64'' (demo_elf 243 0x401000 [0xC3])) (demo_config ''text'' [])
     = Returns (Some (GoApplicationNotMatch ''arm64'' ''unsupport_arch''),
                demo_config ''text'' [], [Stat ''/bin/app'', Open ''/bin/app''])"
proof -
  let ?f = "demo_elf 243 0x401000 [0xC3]"
  let ?gc = "demo_config ''text'' []"
  let ?pf = "demo_platform ''arm64'' ?f"
  have h1: "Path ?gc \<noteq> []" by (simp add: demo_config_def)
  have cm: "checkModel ?gc = ((TlsCaptureModelText, None), [])"
    by (simp add: checkModel_def demo_config_def TlsCaptureModelKeylog_def TlsCaptureModelKey_def
        TlsCaptureModelPcap_def TlsCaptureModelPcapng_def)
  then have h2: "snd (fst (checkModel ?gc)) = None" by simp
  have h3: "os_Stat ?pf (Path ?gc) = None" by (simp add: demo_platform_def demo_config_def)
  have h4: "elf_Open ?pf (Path ?gc) = Inr ?f" by (simp add: demo_platform_def demo_config_def)
  have h5: "Machine_String ?pf (Machine ?f) \<noteq> Machine_String ?pf EM_AARCH64"
    by (simp add: demo_platform_def demo_elf_def demo_Machine_String_def EM_AARCH64_def)
  have h6: "Machine_String ?pf (Machine ?f) \<noteq> Machine_String ?pf EM_X86_64"
    by (simp add: demo_platform_def demo_elf_def demo_Machine_String_def EM_X86_64_def)
  have g: "GOARCH ?pf = ''arm64''" by (simp add: demo_platform_def)
  have p: "Path ?gc = ''/bin/app''" by (simp add: demo_config_def)
  from other_machine_is_a_mismatch[OF h1 h2 h3 h4 h5 h6]
  have "Check ?pf ?gc = Returns (Some (GoApplicationNotMatch ''arm64'' ''unsupport_arch''),
                ?gc, [Stat ''/bin/app'', Open ''/bin/app''])"
    by (simp add: g cm p)
  with h1 h2 h3 h4 h5 h6 show ?thesis by (simp only: simp_thms)
qed

text \<open>
  Claim C3. A binary whose ELF machine field is neither AArch64 nor x86-64 is to be
  rejected with the error "unsupport CPU arch". The code has that return and does not
  reach it: an i386 binary (machine 3) on an amd64 host is rejected with the mismatch
  error instead.
\<close>

theorem unsupported_machine_reported_as_mismatch:
  "Machine (demo_elf 3 0x401000 [0xC3]) \<noteq> EM_AARCH64 \<and>
   Machine (demo_elf 3 0x401000 [0xC3]) \<noteq> EM_X86_64 \<and>
   Check (demo_platform ''amd64'' (demo_elf 3 0x401000 [0xC3])) (demo_config ''text'' [])
     = Returns (Some (GoApplicationNotMatch ''amd64'' ''unsupport_arch''),
                demo_config ''text'' [], [Stat ''/bin/app'', Open ''/bin/app'']) \<and>
   Check (demo_platform ''amd64'' (demo_elf 3 0x401000 [0xC3])) (demo_config ''text'' [])
     \<noteq> Returns (Some (UnsupportCPUArch ''unsupport_arch''),
                demo_config ''text'' [], [Stat ''/bin/app'', Open ''/bin/app''])"
  by (simp add: Check_def checkModel_def classify_machine_def demo_defs EM_AARCH64_def
      EM_X86_64_def TlsCaptureModelKeylog_def TlsCaptureModelKey_def
      TlsCaptureModelPcap_def TlsCaptureModelPcapng_def)

end
